theory Spec2Isabelle
  imports Complex_Main "HOL-Library.Sublist" "HOL-Library.AList"
begin

section \<open>KPI extraction from workshop spreadsheets (analizador.py)\<close>

text \<open>
  The module reads a dictionary of pandas data frames (one per sheet) and derives revenue,
  cost, margin, service count, conversion and lead time from columns it recognises by
  keywords in their headers. This theory embeds its six functions and proves properties of
  them.

  Conventions of the embedding.
  \<^item> Text is a list of 8-bit characters read as Latin-1 code points; \<open>str.lower\<close> and
    \<open>str.strip\<close> are Python's, restricted to these code points. Text with code points
    above 255 is outside the model.
  \<^item> Python floats are modelled by real numbers: the IEEE values inf and nan, and rounding
    error, are outside the model.
  \<^item> A data frame is the list of its columns in order, each a label (already converted by
    \<open>str\<close>) and the list of its cells. Labels are distinct, as pandas readers produce them,
    so that \<open>df[c]\<close> is one column.
  \<^item> pandas 1.x/2.x semantics is assumed for \<open>astype(str)\<close> (object dtype: a missing cell
    becomes the text of its Python value).
  \<^item> The parts of pandas and \<open>re\<close> that parse free text (numbers and dates written as
    text, the text of a float or a timestamp, regular expressions with operators) are
    parameters of the model, collected in the record \<open>pandas\<close>; the general theorems hold
    for every value of the parameter, and the examples are evaluated with \<open>typed_pandas\<close>.
\<close>

subsection \<open>Text\<close>

definition py_isspace :: "char \<Rightarrow> bool" where
  "py_isspace c = (c \<in> set [CHR 0x09, CHR 0x0A, CHR 0x0B, CHR 0x0C, CHR 0x0D, CHR 0x1C,
      CHR 0x1D, CHR 0x1E, CHR 0x1F, CHR 0x20, CHR 0x85, CHR 0xA0])"

definition lower_char :: "char \<Rightarrow> char" where
  "lower_char c = (let n = (of_char c :: nat) in
     if (65 \<le> n \<and> n \<le> 90) \<or> (192 \<le> n \<and> n \<le> 222 \<and> n \<noteq> 215)
     then char_of (n + 32) else c)"

definition py_lower :: "string \<Rightarrow> string" where
  "py_lower s = map lower_char s"

definition py_strip :: "string \<Rightarrow> string" where
  "py_strip s = rev (dropWhile py_isspace (rev (dropWhile py_isspace s)))"

text \<open>\<open>_norm(s) = str(s).strip().lower()\<close>\<close>

definition norm_str :: "string \<Rightarrow> string" where
  "norm_str s = py_lower (py_strip s)"

text \<open>\<open>p in s\<close> on strings: \<open>p\<close> occurs in \<open>s\<close> as a contiguous block.\<close>

fun py_in :: "string \<Rightarrow> string \<Rightarrow> bool" where
  "py_in p [] = (p = [])"
| "py_in p (x # xs) = (prefix p (x # xs) \<or> py_in p xs)"

text \<open>\<open>any(k in c2 for k in keywords)\<close>\<close>

definition any_in :: "string list \<Rightarrow> string \<Rightarrow> bool" where
  "any_in keywords c2 = list_ex (\<lambda>k. py_in k c2) keywords"

definition ING_HINTS :: "string list" where
  "ING_HINTS = [''monto'', ''neto'', ''total'', ''importe'', ''facturacion'', ''ingreso'',
     ''venta'', ''principal'']"

definition COST_HINTS :: "string list" where
  "COST_HINTS = [''costo'', ''costos'', ''gasto'', ''gastos'', ''insumo'', ''insumos'',
     ''repuesto'', ''repuestos'', ''pintura'', ''material'', ''materiales'',
     ''mano de obra'', ''mo'', ''imposicion'', ''imposiciones'',
     ''arriendo'', ''admin'', ''administracion'', ''equipo de planta'', ''generales'',
     ''financiero'', ''financieros'', ''interes'', ''intereses'']"

subsection \<open>Cells, columns and data frames\<close>

datatype cell =
    CNaN
  | CNone
  | CNaT
  | CStr string
  | CInt int
  | CFloat real
  | CTimestamp int

text \<open>\<open>CTimestamp t\<close> is the instant \<open>t\<close> nanoseconds after the epoch.\<close>

definition isna :: "cell \<Rightarrow> bool" where
  "isna c = (c = CNaN \<or> c = CNone \<or> c = CNaT)"

type_synonym table = "(string \<times> cell list) list"

definition columns :: "table \<Rightarrow> string list" where
  "columns df = map fst df"

text \<open>\<open>df[c]\<close> for a label \<open>c\<close> taken from \<open>df.columns\<close>.\<close>

definition getcol :: "table \<Rightarrow> string \<Rightarrow> cell list" where
  "getcol df c = (case map_of df c of Some xs \<Rightarrow> xs | None \<Rightarrow> [])"

definition nrows :: "table \<Rightarrow> nat" where
  "nrows df = (case df of [] \<Rightarrow> 0 | (c, xs) # rest \<Rightarrow> length xs)"

text \<open>\<open>df.empty\<close>: no column or no row.\<close>

definition empty_df :: "table \<Rightarrow> bool" where
  "empty_df df = (df = [] \<or> nrows df = 0)"

text \<open>\<open>df[m]\<close> for a boolean series \<open>m\<close>: the rows at which it is true.\<close>

definition select_rows :: "bool list \<Rightarrow> 'a list \<Rightarrow> 'a list" where
  "select_rows keep xs = map fst (filter snd (zip xs keep))"

definition take_rows :: "table \<Rightarrow> bool list \<Rightarrow> table" where
  "take_rows df keep = map (\<lambda>(c, xs). (c, select_rows keep xs)) df"

subsection \<open>The library\<close>

datatype py_error = ReError

text \<open>
  \<^item> \<open>to_numeric col\<close> is \<open>pd.to_numeric(col, errors="coerce")\<close>; \<open>None\<close> is NaN.
  \<^item> \<open>to_datetime col\<close> is \<open>pd.to_datetime(col, errors="coerce")\<close> in nanoseconds after the
    epoch; \<open>None\<close> is NaT.
  \<^item> \<open>scalar_str c\<close> is the text of a float or of a timestamp.
  \<^item> \<open>re_search pat\<close> is \<open>re.compile(pat, re.IGNORECASE).search\<close> for a pattern that uses
    regular expression operators: the error of the compilation, or the test the compiled
    pattern performs.
\<close>

record pandas =
  to_numeric :: "cell list \<Rightarrow> real option list"
  to_datetime :: "cell list \<Rightarrow> int option list"
  scalar_str :: "cell \<Rightarrow> string"
  re_search :: "string \<Rightarrow> py_error + (string \<Rightarrow> bool)"

fun str_nat :: "nat \<Rightarrow> string" where
  "str_nat n = (if n < 10 then [''0123456789'' ! n]
                else str_nat (n div 10) @ [''0123456789'' ! (n mod 10)])"

definition str_int :: "int \<Rightarrow> string" where
  "str_int i = (if i < 0 then CHR ''-'' # str_nat (nat (- i)) else str_nat (nat i))"

text \<open>
  One cell under \<open>astype(str)\<close>. The text is taken cell by cell, which is what pandas
  does for columns of text, integers, floats and missing values; the one format pandas
  chooses for a whole column of timestamps is not modelled.
\<close>

definition astype_str :: "pandas \<Rightarrow> cell \<Rightarrow> string" where
  "astype_str L c = (case c of
       CNaN \<Rightarrow> ''nan''
     | CNone \<Rightarrow> ''None''
     | CNaT \<Rightarrow> ''NaT''
     | CStr s \<Rightarrow> s
     | CInt i \<Rightarrow> str_int i
     | CFloat r \<Rightarrow> scalar_str L c
     | CTimestamp t \<Rightarrow> scalar_str L c)"

text \<open>The characters that are operators in a regular expression.\<close>

definition re_special :: "string" where
  "re_special = [CHR ''.'', CHR 0x5E, CHR ''$'', CHR ''*'', CHR ''+'', CHR ''?'', CHR ''{'',
     CHR ''}'', CHR ''['', CHR '']'', CHR 0x5C, CHR ''|'', CHR ''('', CHR '')'']"

text \<open>
  \<open>re.compile(pat, flags=re.IGNORECASE)\<close> followed by \<open>search\<close>. A pattern with none of the
  special characters matches where it occurs, letter case ignored; a pattern that starts
  with a repetition operator is rejected (\<open>nothing to repeat at position 0\<close>); every other
  pattern is the library's.
\<close>

definition re_compile :: "pandas \<Rightarrow> string \<Rightarrow> py_error + (string \<Rightarrow> bool)" where
  "re_compile L pat =
     (if list_all (\<lambda>c. c \<notin> set re_special) pat
      then Inr (\<lambda>s. py_in (py_lower pat) (py_lower s))
      else (case pat of
              [] \<Rightarrow> re_search L pat
            | q # rest \<Rightarrow> if q \<in> set ''*+?'' then Inl ReError else re_search L pat))"

text \<open>\<open>col.astype(str).str.contains(pat, case=False, na=False)\<close>: one truth value per row.\<close>

definition str_contains_nocase :: "pandas \<Rightarrow> string \<Rightarrow> cell list \<Rightarrow> py_error + bool list" where
  "str_contains_nocase L pat col =
     (case re_compile L pat of
        Inl e \<Rightarrow> Inl e
      | Inr m \<Rightarrow> Inr (map (\<lambda>c. m (astype_str L c)) col))"

text \<open>\<open>col.nunique(dropna=True)\<close>: values are compared as Python compares them.\<close>

datatype cell_value = VNum real | VStr string | VTime int

definition cell_key :: "cell \<Rightarrow> cell_value option" where
  "cell_key c = (case c of
       CStr s \<Rightarrow> Some (VStr s)
     | CInt i \<Rightarrow> Some (VNum (of_int i))
     | CFloat r \<Rightarrow> Some (VNum r)
     | CTimestamp t \<Rightarrow> Some (VTime t)
     | _ \<Rightarrow> None)"

definition nunique :: "cell list \<Rightarrow> nat" where
  "nunique col = length (remdups (List.map_filter cell_key col))"

text \<open>\<open>s.notna().sum()\<close>, \<open>s.sum()\<close> (missing values skipped) and \<open>(s > 0).sum()\<close>.\<close>

definition count_notna :: "'a option list \<Rightarrow> nat" where
  "count_notna s = length (filter (\<lambda>v. v \<noteq> None) s)"

definition sum_skipna :: "real option list \<Rightarrow> real" where
  "sum_skipna s = sum_list (List.map_filter id s)"

definition count_positive :: "real option list \<Rightarrow> nat" where
  "count_positive s = length (filter (\<lambda>v. case v of None \<Rightarrow> False | Some x \<Rightarrow> 0 < x) s)"

text \<open>\<open>round(x, 2)\<close>: to the nearest multiple of 1/100, a tie to the even one.\<close>

definition py_round2 :: "real \<Rightarrow> real" where
  "py_round2 x = (let y = x * 100; f = \<lfloor>y\<rfloor>; d = y - of_int f in
     (if d < 1/2 then of_int f
      else if 1/2 < d then of_int (f + 1)
      else if even f then of_int f else of_int (f + 1)) / 100)"

text \<open>\<open>d.median()\<close> of at least one value (the code takes it of at least three).\<close>

definition median :: "int list \<Rightarrow> real" where
  "median d = (let ys = sort d; n = length ys in
     if odd n then of_int (ys ! (n div 2))
     else (of_int (ys ! (n div 2 - 1)) + of_int (ys ! (n div 2))) / 2)"

subsection \<open>\<open>_find_numeric_cols\<close>\<close>

definition find_numeric_cols :: "pandas \<Rightarrow> table \<Rightarrow> string list \<Rightarrow> string list" where
  "find_numeric_cols L df keywords =
     filter (\<lambda>c. any_in keywords (norm_str c) \<and> 0 < count_notna (to_numeric L (getcol df c)))
       (columns df)"

subsection \<open>\<open>_count_services\<close>\<close>

definition service_keys :: "string list" where
  "service_keys = [''patente'', ''orden'', ''oc'', ''folio'', ''documento'', ''presupuesto'',
     ''id'', ''nro'', ''n'' @ [CHR 0xFA] @ ''mero'', ''num'']"

text \<open>
  The two nested loops: the first key, in the order of the list, that some label
  contains, and for it the first such label. \<open>None\<close> when the loops end without returning.
\<close>

fun id_scan :: "string list \<Rightarrow> string list \<Rightarrow> string option" where
  "id_scan [] cols = None"
| "id_scan (k # ks) cols =
     (case find (\<lambda>c. py_in k (norm_str c)) cols of
        Some c \<Rightarrow> Some c
      | None \<Rightarrow> id_scan ks cols)"

definition count_services :: "pandas \<Rightarrow> table \<Rightarrow> nat" where
  "count_services L df =
     (case id_scan service_keys (columns df) of
        Some c \<Rightarrow> nunique (getcol df c)
      | None \<Rightarrow>
          (case find_numeric_cols L df ING_HINTS of
             [] \<Rightarrow> 0
           | c # rest \<Rightarrow> count_positive (to_numeric L (getcol df c))))"

subsection \<open>\<open>_lead_time_days\<close>\<close>

definition start_keys :: "string list" where
  "start_keys = [''fecha ingreso'', ''ingreso'', ''recepcion'', ''entrada'']"

definition end_keys :: "string list" where
  "end_keys = [''fecha salida'', ''salida'', ''entrega'', ''egreso'', ''termino'',
     ''t'' @ [CHR 0xE9] @ ''rmino'']"

text \<open>The truth value Python gives a variable that holds \<open>None\<close> or a label.\<close>

definition truthy :: "string option \<Rightarrow> bool" where
  "truthy v = (case v of None \<Rightarrow> False | Some c \<Rightarrow> c \<noteq> [])"

text \<open>The loop over the labels, with the two variables it assigns.\<close>

fun lead_scan :: "string list \<Rightarrow> string option \<Rightarrow> string option \<Rightarrow> string option \<times> string option" where
  "lead_scan [] start_col end_col = (start_col, end_col)"
| "lead_scan (c # cs) start_col end_col =
     (let cc = norm_str c;
          start_col' = (if \<not> truthy start_col \<and> any_in start_keys cc then Some c else start_col);
          end_col' = (if \<not> truthy end_col \<and> any_in end_keys cc then Some c else end_col)
      in lead_scan cs start_col' end_col')"

definition ns_per_day :: int where
  "ns_per_day = 86400000000000"

text \<open>\<open>(e - s).dt.days\<close>: whole days, rounded down; missing when either side is.\<close>

definition delta_days :: "int option list \<Rightarrow> int option list \<Rightarrow> int option list" where
  "delta_days e s = map (\<lambda>(a, b). case a of None \<Rightarrow> None
        | Some x \<Rightarrow> (case b of None \<Rightarrow> None | Some y \<Rightarrow> Some ((x - y) div ns_per_day)))
      (zip e s)"

text \<open>\<open>d[(d.notna()) & (d >= 0) & (d < 365)]\<close>\<close>

definition plausible :: "int option list \<Rightarrow> int list" where
  "plausible d = filter (\<lambda>v. 0 \<le> v \<and> v < 365) (List.map_filter id d)"

definition lead_time_days :: "pandas \<Rightarrow> table \<Rightarrow> real option" where
  "lead_time_days L df =
     (case lead_scan (columns df) None None of
        (start_col, end_col) \<Rightarrow>
          if truthy start_col \<and> truthy end_col then
            (case start_col of None \<Rightarrow> None | Some sc \<Rightarrow>
             (case end_col of None \<Rightarrow> None | Some ec \<Rightarrow>
               (let s = to_datetime L (getcol df sc);
                    e = to_datetime L (getcol df ec);
                    d = plausible (delta_days e s)
                in if 3 \<le> length d then Some (median d) else None)))
          else None)"

subsection \<open>\<open>_apply_client_filter\<close>\<close>

definition apply_client_filter :: "pandas \<Rightarrow> table \<Rightarrow> string \<Rightarrow> py_error + table" where
  "apply_client_filter L df client_substr =
     (if client_substr = [] then Inr df
      else (case find (\<lambda>c. py_in ''cliente'' (norm_str c)) (columns df) of
              None \<Rightarrow> Inr df
            | Some cliente_col \<Rightarrow>
                if cliente_col = [] then Inr df
                else (case str_contains_nocase L client_substr (getcol df cliente_col) of
                        Inl e \<Rightarrow> Inl e
                      | Inr keep \<Rightarrow> Inr (take_rows df keep))))"

subsection \<open>\<open>analizar_datos_taller\<close>\<close>

record hoja_resumen =
  filas :: nat
  ing_cols :: "string list"
  cost_cols :: "string list"
  ingresos_hoja :: real
  costos_hoja :: real

record reporte =
  ingresos :: real
  costos :: real
  margen :: real
  margen_pct :: real
  servicios :: nat
  ticket_promedio :: "real option"
  conversion_pct :: "real option"
  lead_time_mediano_dias :: "real option"
  hojas :: "(string \<times> hoja_resumen) list"

text \<open>
  The variables the loop over the sheets updates. The dictionary \<open>hojas\<close> is the list of
  its items in insertion order; \<open>hojas[hoja] = v\<close> is \<open>AList.update hoja v\<close>.
\<close>

record totals =
  total_ing :: real
  total_cost :: real
  total_services :: nat
  conversion :: "real option"
  lead_time :: "real option"
  hojas_acc :: "(string \<times> hoja_resumen) list"

text \<open>
  The sum of the coerced columns \<open>cols\<close>:
  \<open>float(pd.DataFrame({c: pd.to_numeric(df2[c], errors="coerce") for c in cols}).sum().sum())\<close>
  \<open>if cols else 0.0\<close>.
\<close>

definition sum_cols :: "pandas \<Rightarrow> table \<Rightarrow> string list \<Rightarrow> real" where
  "sum_cols L df2 cols =
     (if cols \<noteq> [] then sum_list (map (\<lambda>c. sum_skipna (to_numeric L (getcol df2 c))) cols)
      else 0)"

text \<open>
  The conversion block of the loop body: the value it assigns to \<open>conversion\<close>, or \<open>None\<close>
  when it assigns nothing (no status column, or a zero denominator).
\<close>

definition count_contains :: "string \<Rightarrow> string list \<Rightarrow> nat" where
  "count_contains p est = length (filter (py_in p) est)"

definition sheet_conversion :: "pandas \<Rightarrow> table \<Rightarrow> real option" where
  "sheet_conversion L df2 =
     (case find (\<lambda>c. py_in ''estado'' (norm_str c) \<or> py_in ''resultado'' (norm_str c))
             (columns df2) of
        None \<Rightarrow> None
      | Some est_col \<Rightarrow>
          (let est = map (\<lambda>c. py_lower (astype_str L c)) (getcol df2 est_col);
               gan = count_contains ''ganad'' est;
               per = count_contains ''perdid'' est;
               env = count_contains ''enviad'' est;
               den = gan + per + env
           in if 0 < den then Some (py_round2 (real gan / real den * 100)) else None))"

text \<open>The body of the loop for one sheet that is present and not empty.\<close>

definition sheet_step :: "pandas \<Rightarrow> string \<Rightarrow> string \<Rightarrow> table \<Rightarrow> totals \<Rightarrow> py_error + totals" where
  "sheet_step L cliente_contiene hoja df a =
     (case apply_client_filter L df cliente_contiene of
        Inl e \<Rightarrow> Inl e
      | Inr df2 \<Rightarrow>
          (let ing = find_numeric_cols L df2 ING_HINTS;
               cost = find_numeric_cols L df2 COST_HINTS;
               ing_sum = sum_cols L df2 ing;
               cost_sum = sum_cols L df2 cost
           in Inr \<lparr> total_ing = total_ing a + ing_sum,
                    total_cost = total_cost a + cost_sum,
                    total_services = total_services a + count_services L df2,
                    conversion = (case sheet_conversion L df2 of
                                    None \<Rightarrow> conversion a | Some v \<Rightarrow> Some v),
                    lead_time = (case lead_time_days L df2 of
                                   None \<Rightarrow> lead_time a | Some lt \<Rightarrow> Some lt),
                    hojas_acc = AList.update hoja
                      \<lparr> filas = nrows df2, ing_cols = ing, cost_cols = cost,
                        ingresos_hoja = ing_sum, costos_hoja = cost_sum \<rparr> (hojas_acc a) \<rparr>))"

text \<open>
  The loop \<open>for hoja, df in data.items()\<close>; the dictionary is the list of its items in
  iteration order, a sheet that is \<open>None\<close> being \<open>None\<close>. An exception ends the loop.
\<close>

fun sheet_loop :: "pandas \<Rightarrow> string \<Rightarrow> (string \<times> table option) list \<Rightarrow> totals \<Rightarrow> py_error + totals" where
  "sheet_loop L cli [] a = Inr a"
| "sheet_loop L cli ((hoja, None) # rest) a = sheet_loop L cli rest a"
| "sheet_loop L cli ((hoja, Some df) # rest) a =
     (if empty_df df then sheet_loop L cli rest a
      else (case sheet_step L cli hoja df a of
              Inl e \<Rightarrow> Inl e
            | Inr a' \<Rightarrow> sheet_loop L cli rest a'))"

definition totals0 :: totals where
  "totals0 = \<lparr> total_ing = 0, total_cost = 0, total_services = 0, conversion = None,
               lead_time = None, hojas_acc = [] \<rparr>"

definition make_report :: "totals \<Rightarrow> reporte" where
  "make_report a =
     (let margen = total_ing a - total_cost a;
          margen_pct = (if total_ing a \<noteq> 0 then margen / total_ing a * 100 else 0);
          ticket = (if total_services a \<noteq> 0 then Some (total_ing a / real (total_services a))
                    else None)
      in \<lparr> ingresos = total_ing a, costos = total_cost a, margen = margen,
           margen_pct = py_round2 margen_pct, servicios = total_services a,
           ticket_promedio = ticket, conversion_pct = conversion a,
           lead_time_mediano_dias = lead_time a, hojas = hojas_acc a \<rparr>)"

definition analizar_datos_taller :: "pandas \<Rightarrow> (string \<times> table option) list \<Rightarrow> string \<Rightarrow> py_error + reporte" where
  "analizar_datos_taller L data cliente_contiene =
     (case sheet_loop L cliente_contiene data totals0 of
        Inl e \<Rightarrow> Inl e
      | Inr a \<Rightarrow> Inr (make_report a))"

subsection \<open>A library for tables of typed cells\<close>

text \<open>
  On a column of numbers and missing values \<open>pd.to_numeric\<close> returns the numbers, and on a
  column of timestamps and missing values \<open>pd.to_datetime\<close> returns the timestamps. The
  instance below does this and nothing else: it reads no text as a number or a date. It is
  the library on the tables the examples use, which hold no other cells in the columns
  that are coerced, no float or timestamp in a column that is turned into text, and no
  client pattern with an operator other than a leading repetition.
\<close>

definition typed_numeric :: "cell list \<Rightarrow> real option list" where
  "typed_numeric col = map (\<lambda>c. case c of CInt i \<Rightarrow> Some (of_int i) | CFloat r \<Rightarrow> Some r
                                 | _ \<Rightarrow> None) col"

definition typed_datetime :: "cell list \<Rightarrow> int option list" where
  "typed_datetime col = map (\<lambda>c. case c of CTimestamp t \<Rightarrow> Some t | _ \<Rightarrow> None) col"

definition typed_pandas :: pandas where
  "typed_pandas = \<lparr> to_numeric = typed_numeric, to_datetime = typed_datetime,
                    scalar_str = (\<lambda>c. []), re_search = (\<lambda>pat. Inl ReError) \<rparr>"

subsection \<open>The sheets the loop processes\<close>

text \<open>
  The filtered tables \<open>df2\<close> of the sheets the loop does not skip, in iteration order; the
  exception of the first filter that raises.
\<close>

fun filtered_sheets :: "pandas \<Rightarrow> string \<Rightarrow> (string \<times> table option) list \<Rightarrow> py_error + table list" where
  "filtered_sheets L cli [] = Inr []"
| "filtered_sheets L cli ((hoja, None) # rest) = filtered_sheets L cli rest"
| "filtered_sheets L cli ((hoja, Some df) # rest) =
     (if empty_df df then filtered_sheets L cli rest
      else (case apply_client_filter L df cli of
              Inl e \<Rightarrow> Inl e
            | Inr df2 \<Rightarrow> (case filtered_sheets L cli rest of
                           Inl e \<Rightarrow> Inl e
                         | Inr dfs \<Rightarrow> Inr (df2 # dfs))))"

text \<open>The last value of a list that is not \<open>None\<close>; \<open>None\<close> when there is none.\<close>

definition last_non_null :: "'a option list \<Rightarrow> 'a option" where
  "last_non_null vs = (case filter (\<lambda>v. v \<noteq> None) vs of [] \<Rightarrow> None | w # ws \<Rightarrow> last (w # ws))"

definition or_else :: "'a option \<Rightarrow> 'a option \<Rightarrow> 'a option" where
  "or_else new old = (case new of None \<Rightarrow> old | Some v \<Rightarrow> Some v)"

subsection \<open>Example tables\<close>




definition orden_example :: table where
  "orden_example = [(''Orden'', [CInt 1, CInt 1, CInt 2, CInt 3])]"

definition total_example :: table where
  "total_example = [(''Total'', [CInt 5, CInt 0, CNaN, CFloat 2])]"

definition client_example :: table where
  "client_example = [(''Cliente'', [CStr ''Ana'', CNaN, CStr ''Luis'', CStr ''MARIANA'']),
                     (''Total'', [CInt 10, CInt 20, CInt 30, CInt 40])]"

definition client_ana :: table where
  "client_ana = [(''Cliente'', [CStr ''Ana'', CStr ''MARIANA'']), (''Total'', [CInt 10, CInt 40])]"

definition example_data :: "(string \<times> table option) list" where
  "example_data = [(''A'', Some [(''Total'', [CInt 3])]), (''B'', None),
                   (''C'', Some [(''Costo'', [CInt 1, CNaN])])]"

definition example_report :: reporte where
  "example_report = \<lparr> ingresos = 3, costos = 1, margen = 2, margen_pct = 6667 / 100,
     servicios = 1, ticket_promedio = Some 3, conversion_pct = None,
     lead_time_mediano_dias = None,
     hojas = [(''A'', \<lparr> filas = 1, ing_cols = [''Total''], cost_cols = [], ingresos_hoja = 3,
                         costos_hoja = 0 \<rparr>),
              (''C'', \<lparr> filas = 2, ing_cols = [], cost_cols = [''Costo''], ingresos_hoja = 0,
                         costos_hoja = 1 \<rparr>)] \<rparr>"



text \<open>
  Three sheets: the first gives a conversion of 50 and a lead time of 4, the second a
  conversion of 100 and no lead time, the third neither.
\<close>

definition quotes_example :: table where
  "quotes_example =
     [(''Estado'', [CStr ''Ganado'', CStr ''Perdido'', CStr ''Enviado'', CStr ''ganado'']),
      (''Fecha Recepcion'', [CTimestamp 0, CTimestamp 0, CTimestamp 0, CNaT]),
      (''Fecha Entrega'', [CTimestamp (2 * ns_per_day), CTimestamp (4 * ns_per_day),
                           CTimestamp (6 * ns_per_day), CTimestamp ns_per_day])]"

definition seq_data :: "(string \<times> table option) list" where
  "seq_data = [(''Cotizaciones'', Some quotes_example),
               (''Cierres'', Some [(''Resultado'', [CStr ''GANADO''])]),
               (''Caja'', Some [(''Total'', [CInt 10])])]"

definition seq_report :: reporte where
  "seq_report = \<lparr> ingresos = 10, costos = 0, margen = 10, margen_pct = 100, servicios = 1,
     ticket_promedio = Some 10, conversion_pct = Some 100, lead_time_mediano_dias = Some 4,
     hojas = [(''Cotizaciones'', \<lparr> filas = 4, ing_cols = [], cost_cols = [], ingresos_hoja = 0,
                                    costos_hoja = 0 \<rparr>),
              (''Cierres'', \<lparr> filas = 1, ing_cols = [], cost_cols = [], ingresos_hoja = 0,
                               costos_hoja = 0 \<rparr>),
              (''Caja'', \<lparr> filas = 1, ing_cols = [''Total''], cost_cols = [], ingresos_hoja = 10,
                            costos_hoja = 0 \<rparr>)] \<rparr>"

section \<open>Properties\<close>

subsection \<open>Runs of the examples\<close>

lemma example_run: "analizar_datos_taller typed_pandas example_data [] = Inr example_report"
  by code_simp


lemma seq_run: "analizar_datos_taller typed_pandas seq_data [] = Inr seq_report"
  by code_simp


subsection \<open>The report\<close>

lemma analizar_report:
  "analizar_datos_taller L data cli = Inr r \<Longrightarrow> \<exists>a. r = make_report a"
  by (auto simp: analizar_datos_taller_def split: sum.splits)



text \<open>
  Claim C2. In every report the function returns, the field \<open>margen\<close> is the field
  \<open>ingresos\<close> minus the field \<open>costos\<close>, for every dataset and client substring.
\<close>

theorem margen_is_difference:
  assumes "analizar_datos_taller L data cli = Inr r"
  shows "margen r = ingresos r - costos r"
proof -
  from assms obtain a where "r = make_report a"
    using analizar_report by blast
  then show ?thesis
    by (simp add: make_report_def Let_def)
qed

theorem margen_is_difference_witness:
  "analizar_datos_taller typed_pandas example_data [] = Inr example_report
     \<and> ingresos example_report = 3 \<and> costos example_report = 1
     \<and> margen example_report = ingresos example_report - costos example_report"
  using example_run margen_is_difference[OF example_run]
  by (simp add: example_report_def)





subsection \<open>Conversion and lead time across sheets\<close>

lemma last_non_null_Nil: "last_non_null [] = None"
  by (simp add: last_non_null_def)

lemma last_non_null_Cons:
  "last_non_null (v # vs) = or_else (last_non_null vs) v"
proof (cases "filter (\<lambda>v. v \<noteq> None) vs")
  case Nil
  then show ?thesis
    by (cases v) (simp_all add: last_non_null_def or_else_def)
next
  case (Cons w ws)
  have "last (w # ws) \<in> set (filter (\<lambda>v. v \<noteq> None) vs)"
    unfolding Cons by (rule last_in_set) simp
  then obtain y where y: "last (w # ws) = Some y"
    by auto
  have "last_non_null vs = Some y"
    unfolding last_non_null_def Cons using y by simp
  moreover have "last_non_null (v # vs) = Some y"
    unfolding last_non_null_def filter.simps Cons using y by (cases v) simp_all
  ultimately show ?thesis
    by (simp add: or_else_def)
qed

lemma or_else_assoc: "or_else a (or_else b c) = or_else (or_else a b) c"
  by (auto simp: or_else_def split: option.splits)

lemma or_else_None: "or_else a None = a"
  by (auto simp: or_else_def split: option.splits)

lemma sheet_step_fields:
  assumes "sheet_step L cli hoja df a = Inr a'"
  shows "\<exists>df2. apply_client_filter L df cli = Inr df2
           \<and> conversion a' = or_else (sheet_conversion L df2) (conversion a)
           \<and> lead_time a' = or_else (lead_time_days L df2) (lead_time a)"
  using assms
  by (auto simp: sheet_step_def Let_def or_else_def split: sum.splits)

lemma sheet_loop_last:
  "sheet_loop L cli data a = Inr a' \<Longrightarrow>
     \<exists>dfs. filtered_sheets L cli data = Inr dfs
       \<and> conversion a' = or_else (last_non_null (map (sheet_conversion L) dfs)) (conversion a)
       \<and> lead_time a' = or_else (last_non_null (map (lead_time_days L) dfs)) (lead_time a)"
proof (induction L cli data a rule: sheet_loop.induct)
  case (1 L cli a)
  then show ?case
    by (simp add: last_non_null_Nil or_else_def)
next
  case (2 L cli hoja rest a)
  then show ?case
    by simp
next
  case (3 L cli hoja df rest a)
  show ?case
  proof (cases "empty_df df")
    case True
    with 3 show ?thesis
      by simp
  next
    case False
    with "3.prems" obtain a1 where s: "sheet_step L cli hoja df a = Inr a1"
      and l: "sheet_loop L cli rest a1 = Inr a'"
      by (auto split: sum.splits)
    from sheet_step_fields[OF s] obtain df2 where f: "apply_client_filter L df cli = Inr df2"
      and c1: "conversion a1 = or_else (sheet_conversion L df2) (conversion a)"
      and t1: "lead_time a1 = or_else (lead_time_days L df2) (lead_time a)"
      by blast
    from "3.IH"(2)[OF False s l] obtain dfs where r: "filtered_sheets L cli rest = Inr dfs"
      and c2: "conversion a' = or_else (last_non_null (map (sheet_conversion L) dfs)) (conversion a1)"
      and t2: "lead_time a' = or_else (last_non_null (map (lead_time_days L) dfs)) (lead_time a1)"
      by blast
    have "filtered_sheets L cli ((hoja, Some df) # rest) = Inr (df2 # dfs)"
      using False f r by simp
    moreover have "conversion a' =
        or_else (last_non_null (map (sheet_conversion L) (df2 # dfs))) (conversion a)"
      by (simp add: c2 c1 last_non_null_Cons or_else_assoc)
    moreover have "lead_time a' =
        or_else (last_non_null (map (lead_time_days L) (df2 # dfs))) (lead_time a)"
      by (simp add: t2 t1 last_non_null_Cons or_else_assoc)
    ultimately show ?thesis
      by blast
  qed
qed

text \<open>
  Claim C7. The conversion and the median lead time of the report are those of the last
  sheet, in iteration order, whose own value is not null: a sheet without a value leaves
  the earlier one in place, and nothing is averaged.
\<close>

theorem last_non_null_wins:
  assumes "analizar_datos_taller L data cli = Inr r"
  shows "\<exists>dfs. filtered_sheets L cli data = Inr dfs
           \<and> conversion_pct r = last_non_null (map (sheet_conversion L) dfs)
           \<and> lead_time_mediano_dias r = last_non_null (map (lead_time_days L) dfs)"
proof -
  from assms obtain a where l: "sheet_loop L cli data totals0 = Inr a"
    and r: "r = make_report a"
    by (auto simp: analizar_datos_taller_def split: sum.splits)
  from sheet_loop_last[OF l] show ?thesis
    by (simp add: r make_report_def Let_def totals0_def or_else_None)
qed

lemma seq_sheets:
  "filtered_sheets typed_pandas [] seq_data
     = Inr [quotes_example, [(''Resultado'', [CStr ''GANADO''])], [(''Total'', [CInt 10])]]"
  by code_simp

lemma seq_values:
  "sheet_conversion typed_pandas quotes_example = Some 50"
  "sheet_conversion typed_pandas [(''Resultado'', [CStr ''GANADO''])] = Some 100"
  "sheet_conversion typed_pandas [(''Total'', [CInt 10])] = None"
  "lead_time_days typed_pandas quotes_example = Some 4"
  "lead_time_days typed_pandas [(''Resultado'', [CStr ''GANADO''])] = None"
  "lead_time_days typed_pandas [(''Total'', [CInt 10])] = None"
  by code_simp+

theorem last_non_null_wins_witness:
  "analizar_datos_taller typed_pandas seq_data [] = Inr seq_report
     \<and> conversion_pct seq_report = last_non_null [Some 50, Some 100, None]
     \<and> conversion_pct seq_report = Some 100
     \<and> lead_time_mediano_dias seq_report = last_non_null [Some 4, None, None]
     \<and> lead_time_mediano_dias seq_report = Some 4"
proof -
  from last_non_null_wins[OF seq_run]
  have "conversion_pct seq_report = last_non_null [Some 50, Some 100, None]"
    and "lead_time_mediano_dias seq_report = last_non_null [Some 4, None, None]"
    by (simp_all add: seq_sheets seq_values)
  with seq_run show ?thesis
    by (simp add: seq_report_def)
qed

subsection \<open>The client filter\<close>


lemma map_of_take_rows:
  "map_of (take_rows df keep) c = map_option (select_rows keep) (map_of df c)"
  by (induction df) (auto simp: take_rows_def)

lemma find_SomeD: "find P xs = Some x \<Longrightarrow> P x \<and> x \<in> set xs"
  by (induction xs) (auto split: if_splits)

lemma getcol_take_rows:
  assumes "c \<in> set (columns df)"
  shows "getcol (take_rows df keep) c = select_rows keep (getcol df c)"
proof -
  from assms obtain xs where "map_of df c = Some xs"
    by (metis columns_def domD dom_map_of_conv_image_fst list.set_map)
  then show ?thesis
    by (simp add: getcol_def map_of_take_rows)
qed

lemma select_rows_Nil: "select_rows keep [] = []"
  by (simp add: select_rows_def)


lemma select_rows_Cons:
  "select_rows (k # keep) (x # xs) = (if k then x # select_rows keep xs else select_rows keep xs)"
  by (simp add: select_rows_def)







lemma client_ana_run: "apply_client_filter typed_pandas client_example ''ana'' = Inr client_ana"
  by code_simp


text \<open>
  Claim C1 says that a row whose client cell is missing is never kept. The code turns the
  column into text before it searches, so that a NaN cell is the text \<open>nan\<close>: with the
  substring \<open>an\<close> the filter keeps the second row of the example, whose client is NaN, next
  to the rows of Ana and of MARIANA.
\<close>

theorem client_filter_keeps_missing_cell:
  "apply_client_filter L client_example ''an''
     = Inr [(''Cliente'', [CStr ''Ana'', CNaN, CStr ''MARIANA'']),
            (''Total'', [CInt 10, CInt 20, CInt 40])]"
  by code_simp

text \<open>
  Claim C8 says that the entry point returns a report for every client substring. The
  substring is compiled as a regular expression: with the substring \<open>*\<close> and a sheet that
  has a client column, the call ends with the exception of \<open>re.compile\<close>.
\<close>

theorem analizar_raises_on_pattern:
  "analizar_datos_taller L [(''Hoja1'', Some client_example)] ''*'' = Inl ReError"
  by code_simp

subsection \<open>Lead time\<close>

lemma norm_str_Nil: "norm_str [] = []"
  by (simp add: norm_str_def py_strip_def py_lower_def)








subsection \<open>Service count\<close>

lemma id_scan_None:
  "id_scan ks cols = None \<longleftrightarrow> (\<forall>k\<in>set ks. \<forall>c\<in>set cols. \<not> py_in k (norm_str c))"
  by (induction ks) (auto simp: find_None_iff dest: find_SomeD split: option.splits)

lemma id_scan_first:
  assumes "\<forall>k'\<in>set ks1. \<forall>c'\<in>set cols. \<not> py_in k' (norm_str c')"
    and "find (\<lambda>c. py_in k (norm_str c)) cols = Some c"
  shows "id_scan (ks1 @ k # ks2) cols = Some c"
  using assms
proof (induction ks1)
  case Nil
  then show ?case
    by simp
next
  case (Cons a ks1)
  then have "find (\<lambda>c. py_in a (norm_str c)) cols = None"
    by (simp add: find_None_iff)
  with Cons show ?case
    by simp
qed

lemma cell_key_None: "cell_key x = None \<longleftrightarrow> isna x"
  by (cases x) (simp_all add: cell_key_def isna_def)

text \<open>\<open>nunique\<close> counts the values of the cells that are not missing.\<close>

lemma nunique_card:
  "nunique col = card (cell_key ` {x \<in> set col. \<not> isna x})"
proof -
  have "set (List.map_filter cell_key col) = {k. \<exists>x\<in>set col. cell_key x = Some k}"
    by (induction col) (auto simp: map_filter_simps split: option.splits)
  moreover have "cell_key ` {x \<in> set col. \<not> isna x}
                   = Some ` {k. \<exists>x\<in>set col. cell_key x = Some k}"
  proof (intro set_eqI iffI)
    fix v
    assume "v \<in> cell_key ` {x \<in> set col. \<not> isna x}"
    then obtain x where x: "x \<in> set col" "\<not> isna x" "v = cell_key x"
      by auto
    then obtain k where "cell_key x = Some k"
      using cell_key_None[of x] by (cases "cell_key x") auto
    with x show "v \<in> Some ` {k. \<exists>x\<in>set col. cell_key x = Some k}"
      by auto
  next
    fix v
    assume "v \<in> Some ` {k. \<exists>x\<in>set col. cell_key x = Some k}"
    then obtain k x where x: "x \<in> set col" "cell_key x = Some k" "v = Some k"
      by auto
    then have "\<not> isna x"
      using cell_key_None[of x] by auto
    with x show "v \<in> cell_key ` {x \<in> set col. \<not> isna x}"
      by force
  qed
  ultimately have "card (cell_key ` {x \<in> set col. \<not> isna x})
                     = card (set (List.map_filter cell_key col))"
    by (simp add: card_image)
  then show ?thesis
    by (simp add: nunique_def length_remdups_card_conv)
qed

lemma count_positive_alt:
  "count_positive s = length (filter (\<lambda>v. \<exists>x. v = Some x \<and> 0 < x) s)"
proof -
  have "(\<lambda>v. case v of None \<Rightarrow> False | Some x \<Rightarrow> 0 < x)
          = (\<lambda>v::real option. \<exists>x. v = Some x \<and> 0 < x)"
    by (auto split: option.splits)
  then show ?thesis
    by (simp add: count_positive_def)
qed

text \<open>
  Claim C6. With \<open>k\<close> the first keyword of the ordered list that some label contains and
  \<open>c\<close> the first label that contains it, the service count is the number of distinct
  values of the cells of column \<open>c\<close> that are not missing. When no label contains a
  keyword, it is the number of rows at which the first revenue column coerces to a number
  above zero, and 0 when there is no revenue column. A column \<open>Orden\<close> with the values
  1, 1, 2, 3 gives 3.
\<close>

theorem count_services_spec:
  "(service_keys = pre @ k # post
      \<and> (\<forall>k'\<in>set pre. \<forall>c'\<in>set (columns df). \<not> py_in k' (norm_str c'))
      \<and> find (\<lambda>c. py_in k (norm_str c)) (columns df) = Some c
      \<longrightarrow> count_services L df = card (cell_key ` {x \<in> set (getcol df c). \<not> isna x}))
   \<and> ((\<forall>k\<in>set service_keys. \<forall>c\<in>set (columns df). \<not> py_in k (norm_str c))
      \<longrightarrow> count_services L df =
           (case find_numeric_cols L df ING_HINTS of
              [] \<Rightarrow> 0
            | c # rest \<Rightarrow> length (filter (\<lambda>v. \<exists>x. v = Some x \<and> 0 < x)
                                      (to_numeric L (getcol df c)))))
   \<and> count_services L orden_example = 3"
proof (intro conjI impI)
  assume a: "service_keys = pre @ k # post
      \<and> (\<forall>k'\<in>set pre. \<forall>c'\<in>set (columns df). \<not> py_in k' (norm_str c'))
      \<and> find (\<lambda>c. py_in k (norm_str c)) (columns df) = Some c"
  then have "id_scan service_keys (columns df) = Some c"
    using id_scan_first[of pre "columns df" k c post] by simp
  then show "count_services L df = card (cell_key ` {x \<in> set (getcol df c). \<not> isna x})"
    by (simp add: count_services_def nunique_card)
next
  assume "\<forall>k\<in>set service_keys. \<forall>c\<in>set (columns df). \<not> py_in k (norm_str c)"
  then have "id_scan service_keys (columns df) = None"
    by (simp add: id_scan_None)
  then show "count_services L df =
           (case find_numeric_cols L df ING_HINTS of
              [] \<Rightarrow> 0
            | c # rest \<Rightarrow> length (filter (\<lambda>v. \<exists>x. v = Some x \<and> 0 < x)
                                      (to_numeric L (getcol df c))))"
    by (simp add: count_services_def count_positive_alt split: list.splits)
next
  show "count_services L orden_example = 3"
    by code_simp
qed

lemma orden_facts:
  "\<forall>k'\<in>set [''patente'']. \<forall>c'\<in>set (columns orden_example). \<not> py_in k' (norm_str c')"
  "find (\<lambda>c. py_in ''orden'' (norm_str c)) (columns orden_example) = Some ''Orden''"
  "\<forall>k\<in>set service_keys. \<forall>c\<in>set (columns total_example). \<not> py_in k (norm_str c)"
  "find_numeric_cols typed_pandas total_example ING_HINTS = [''Total'']"
  "to_numeric typed_pandas (getcol total_example ''Total'') = [Some 5, Some 0, None, Some 2]"
  by code_simp+

theorem count_services_spec_witness:
  "count_services typed_pandas orden_example
     = card (cell_key ` {x \<in> set (getcol orden_example ''Orden''). \<not> isna x})
   \<and> count_services typed_pandas orden_example = 3
   \<and> count_services typed_pandas total_example
     = length (filter (\<lambda>v. \<exists>x. v = Some x \<and> 0 < x) [Some 5, Some 0, None, Some (2::real)])
   \<and> count_services typed_pandas total_example = 2"
proof -
  have keys: "service_keys = [''patente''] @ ''orden'' # [''oc'', ''folio'', ''documento'',
      ''presupuesto'', ''id'', ''nro'', ''n'' @ [CHR 0xFA] @ ''mero'', ''num'']"
    by (simp add: service_keys_def)
  note orden = count_services_spec[where df = orden_example and L = typed_pandas
      and pre = "[''patente'']" and k = "''orden''" and c = "''Orden''"
      and post = "[''oc'', ''folio'', ''documento'', ''presupuesto'', ''id'', ''nro'',
                  ''n'' @ [CHR 0xFA] @ ''mero'', ''num'']"]
  note total = count_services_spec[where df = total_example and L = typed_pandas]
  have 1: "count_services typed_pandas orden_example
             = card (cell_key ` {x \<in> set (getcol orden_example ''Orden''). \<not> isna x})"
    using orden keys orden_facts(1,2) by blast
  have 2: "count_services typed_pandas orden_example = 3"
    using orden by blast
  have 3: "count_services typed_pandas total_example
             = length (filter (\<lambda>v. \<exists>x. v = Some x \<and> 0 < x) [Some 5, Some 0, None, Some (2::real)])"
    using total[THEN conjunct2, THEN conjunct1] orden_facts(3)
    by (simp add: orden_facts(4,5))
  have 4: "length (filter (\<lambda>v. \<exists>x. v = Some x \<and> 0 < x) [Some 5, Some 0, None, Some (2::real)]) = 2"
    by simp
  from 1 2 3 4 show ?thesis
    by simp
qed

subsection \<open>Conversion\<close>







subsection \<open>Client substrings without regular expression operators\<close>

text \<open>\<open>py_in\<close> is the contiguous sublist relation of the library.\<close>

lemma py_in_sublist: "py_in p s \<longleftrightarrow> sublist p s"
  by (induction s) (simp_all add: sublist_Cons_right)

lemma re_compile_plain:
  "list_all (\<lambda>c. c \<notin> set re_special) pat \<Longrightarrow>
     re_compile L pat = Inr (\<lambda>s. py_in (py_lower pat) (py_lower s))"
  by (simp add: re_compile_def)

lemma client_label: "py_in ''cliente'' (norm_str c) \<Longrightarrow> c \<noteq> []"
  by (auto simp: norm_str_Nil)

lemma select_rows_filter: "select_rows (map P xs) xs = filter P xs"
  by (induction xs) (auto simp: select_rows_Nil select_rows_Cons)

text \<open>
  For a substring that is not empty and has no operator character, and a table with a
  client column \<open>c\<close>, the filter returns the rows at which the text of the client cell
  contains the substring, letter case ignored; the text of a missing cell is \<open>nan\<close>,
  \<open>None\<close> or \<open>NaT\<close>.
\<close>

theorem client_filter_plain_substring:
  assumes "cli \<noteq> []" and "list_all (\<lambda>c. c \<notin> set re_special) cli"
    and "find (\<lambda>c. py_in ''cliente'' (norm_str c)) (columns df) = Some c"
  shows "apply_client_filter L df cli
           = Inr (take_rows df (map (\<lambda>x. py_in (py_lower cli) (py_lower (astype_str L x)))
                                    (getcol df c)))
       \<and> getcol (take_rows df (map (\<lambda>x. py_in (py_lower cli) (py_lower (astype_str L x)))
                                    (getcol df c))) c
           = filter (\<lambda>x. py_in (py_lower cli) (py_lower (astype_str L x))) (getcol df c)"
proof
  have c: "c \<noteq> []" and cin: "c \<in> set (columns df)"
    using assms(3) client_label by (auto dest: find_SomeD)
  show "apply_client_filter L df cli
           = Inr (take_rows df (map (\<lambda>x. py_in (py_lower cli) (py_lower (astype_str L x)))
                                    (getcol df c)))"
    using assms c
    by (simp add: apply_client_filter_def str_contains_nocase_def re_compile_plain)
  show "getcol (take_rows df (map (\<lambda>x. py_in (py_lower cli) (py_lower (astype_str L x)))
                                    (getcol df c))) c
           = filter (\<lambda>x. py_in (py_lower cli) (py_lower (astype_str L x))) (getcol df c)"
    by (simp add: getcol_take_rows[OF cin] select_rows_filter)
qed

lemma client_example_facts:
  "list_all (\<lambda>c. c \<notin> set re_special) ''ana''"
  "find (\<lambda>c. py_in ''cliente'' (norm_str c)) (columns client_example) = Some ''Cliente''"
  "filter (\<lambda>x. py_in (py_lower ''ana'') (py_lower (astype_str typed_pandas x)))
     (getcol client_example ''Cliente'') = [CStr ''Ana'', CStr ''MARIANA'']"
  by code_simp+

theorem client_filter_plain_substring_witness:
  "apply_client_filter typed_pandas client_example ''ana'' = Inr client_ana
     \<and> getcol client_ana ''Cliente'' = [CStr ''Ana'', CStr ''MARIANA'']"
proof -
  let ?kept = "take_rows client_example
      (map (\<lambda>x. py_in (py_lower ''ana'') (py_lower (astype_str typed_pandas x)))
           (getcol client_example ''Cliente''))"
  have ne: "''ana'' \<noteq> []"
    by simp
  note plain = client_filter_plain_substring[OF ne client_example_facts(1,2), of typed_pandas]
  from plain have "Inr ?kept = (Inr client_ana :: py_error + table)"
    by (simp add: client_ana_run)
  then have k: "?kept = client_ana"
    by simp
  from plain have "getcol ?kept ''Cliente'' = [CStr ''Ana'', CStr ''MARIANA'']"
    by (simp add: client_example_facts(3))
  then show ?thesis
    by (simp add: k client_ana_run)
qed

lemma client_filter_plain_returns:
  assumes "list_all (\<lambda>c. c \<notin> set re_special) cli"
  shows "\<exists>df2. apply_client_filter L df cli = Inr df2"
  using assms
  by (auto simp: apply_client_filter_def str_contains_nocase_def re_compile_plain
           split: option.splits)

lemma sheet_loop_plain_returns:
  assumes "list_all (\<lambda>c. c \<notin> set re_special) cli"
  shows "\<exists>a'. sheet_loop L cli data a = Inr a'"
proof (induction data arbitrary: a)
  case Nil
  then show ?case
    by simp
next
  case (Cons item data)
  obtain hoja dfo where item: "item = (hoja, dfo)"
    by (cases item)
  show ?case
  proof (cases dfo)
    case None
    with item Cons show ?thesis
      by simp
  next
    case (Some df)
    from client_filter_plain_returns[OF assms] obtain df2
      where "apply_client_filter L df cli = Inr df2"
      by blast
    then obtain a1 where "sheet_step L cli hoja df a = Inr a1"
      by (simp add: sheet_step_def Let_def)
    with item Some Cons[of a] Cons[of a1] show ?thesis
      by simp
  qed
qed

text \<open>
  With a client substring that has no operator character (the empty one included), the
  entry point returns a report for every dataset.
\<close>

theorem analizar_returns_on_plain_substring:
  assumes "list_all (\<lambda>c. c \<notin> set re_special) cli"
  shows "\<exists>r. analizar_datos_taller L data cli = Inr r"
proof -
  from sheet_loop_plain_returns[OF assms] obtain a
    where "sheet_loop L cli data totals0 = Inr a"
    by blast
  then show ?thesis
    by (simp add: analizar_datos_taller_def)
qed

theorem analizar_returns_on_plain_substring_witness:
  "list_all (\<lambda>c. c \<notin> set re_special) ''ana''
     \<and> (\<exists>r. analizar_datos_taller typed_pandas seq_data ''ana'' = Inr r)"
  using client_example_facts(1) analizar_returns_on_plain_substring[OF client_example_facts(1)]
  by simp

end
